theory Spec2Isabelle
  imports Main
begin

section \<open>Python values, strings and exceptions\<close>

text \<open>
  The development embeds \<^verbatim>\<open>tableauserverclient/models/project_item.py\<close>.
  A Python \<^verbatim>\<open>str\<close> is a \<open>string\<close> whose characters are read as the code points
  0 to 255; \<^verbatim>\<open>Optional[str]\<close> is \<open>string option\<close>. A name of the source that
  starts with an underscore is written with the prefix \<open>priv_\<close>, and a parameter that
  shares its name with a field carries a prime.
\<close>

datatype error =
    ValidationError
  | UnpopulatedPropertyError string
  | AttributeError
  | ValueError
  | TypeError
  | SyntaxError
  | ParseError

text \<open>
  \<^verbatim>\<open>str.lower()\<close> on the code points below 256: the letters A to Z and the
  capital letters of the Latin-1 block (192 to 222, the multiplication sign 215 apart)
  move up by 32, every other code point stays.
\<close>

definition lower_char :: "char \<Rightarrow> char" where
  "lower_char c =
     (let n = (of_char c :: nat)
      in if (65 \<le> n \<and> n \<le> 90) \<or> (192 \<le> n \<and> n \<le> 222 \<and> n \<noteq> 215)
         then char_of (n + 32) else c)"

definition lower :: "string \<Rightarrow> string" where
  "lower s = map lower_char s"

text \<open>Truth value of an \<^verbatim>\<open>Optional[str]\<close> in a condition: \<^verbatim>\<open>None\<close> and the empty
  string are false.\<close>

definition truthy :: "string option \<Rightarrow> bool" where
  "truthy v = (case v of None \<Rightarrow> False | Some s \<Rightarrow> s \<noteq> [])"

section \<open>XML elements\<close>

text \<open>
  An \<^verbatim>\<open>xml.etree.ElementTree.Element\<close>: its tag (a qualified name in the form
  \<^verbatim>\<open>{uri}local\<close>), its attribute dictionary and its child elements in document order.
\<close>

datatype element = Element (tag: string) (attrib: "(string \<times> string) list") (children: "element list")

text \<open>\<^verbatim>\<open>element.get(key, None)\<close>\<close>

definition element_get :: "element \<Rightarrow> string \<Rightarrow> string option" where
  "element_get e key = map_of (attrib e) key"

text \<open>\<^verbatim>\<open>element.iter()\<close>: the element and all elements below it, in document order.\<close>

fun iter :: "element \<Rightarrow> element list" where
  "iter (Element t a cs) = Element t a cs # concat (map iter cs)"

text \<open>
  The path \<^verbatim>\<open>.//t:project\<close> with the prefix map \<open>ns\<close>: the prefix \<^verbatim>\<open>t\<close> is looked
  up in \<open>ns\<close> (a missing prefix is a \<^verbatim>\<open>SyntaxError\<close> of ElementPath), and the elements
  selected are those strictly below the root whose tag is the qualified name, in document
  order. Namespace URIs are ordinary ones (the wildcard forms of ElementPath are not
  part of the model).
\<close>

definition project_path :: "(string \<rightharpoonup> string) \<Rightarrow> error + string" where
  "project_path ns =
     (case ns ''t'' of
        None \<Rightarrow> Inl SyntaxError
      | Some uri \<Rightarrow> Inr (''{'' @ uri @ ''}project''))"

definition findall :: "element \<Rightarrow> (string \<rightharpoonup> string) \<Rightarrow> error + element list" where
  "findall root ns =
     (case project_path ns of
        Inl err \<Rightarrow> Inl err
      | Inr qname \<Rightarrow> Inr (filter (\<lambda>e. tag e = qname) (concat (map iter (children root)))))"

definition find_project :: "element \<Rightarrow> (string \<rightharpoonup> string) \<Rightarrow> error + element option" where
  "find_project root ns =
     (case findall root ns of
        Inl err \<Rightarrow> Inl err
      | Inr [] \<Rightarrow> Inr None
      | Inr (e # _) \<Rightarrow> Inr (Some e))"

section \<open>The project item\<close>

text \<open>
  The attributes of a \<^verbatim>\<open>ProjectItem\<close>. A permission slot holds \<^verbatim>\<open>None\<close> or a
  zero-argument provider whose result has type \<open>'p\<close>. \<open>other_attrs\<close> holds the attributes
  that \<^verbatim>\<open>setattr\<close> creates under a name that is none of the slots.
\<close>

record 'p project_item =
  priv_content_permissions :: "string option"
  priv_id :: "string option"
  description :: "string option"
  priv_name :: "string option"
  parent_id :: "string option"
  priv_samples :: "bool option"
  priv_owner_id :: "string option"
  priv_permissions :: "(unit \<Rightarrow> 'p) option"
  priv_default_workbook_permissions :: "(unit \<Rightarrow> 'p) option"
  priv_default_datasource_permissions :: "(unit \<Rightarrow> 'p) option"
  priv_default_flow_permissions :: "(unit \<Rightarrow> 'p) option"
  priv_default_lens_permissions :: "(unit \<Rightarrow> 'p) option"
  priv_default_datarole_permissions :: "(unit \<Rightarrow> 'p) option"
  priv_default_metric_permissions :: "(unit \<Rightarrow> 'p) option"
  priv_default_virtualconnection_permissions :: "(unit \<Rightarrow> 'p) option"
  priv_default_database_permissions :: "(unit \<Rightarrow> 'p) option"
  priv_default_table_permissions :: "(unit \<Rightarrow> 'p) option"
  other_attrs :: "string \<rightharpoonup> (unit \<Rightarrow> 'p) option"

definition ERROR_MSG :: string where
  "ERROR_MSG = ''Project item must be populated with permissions first.''"

text \<open>The class \<^verbatim>\<open>ContentPermissions\<close>: its three members.\<close>

definition ContentPermissions :: "string list" where
  "ContentPermissions = [''LockedToProject'', ''ManagedByOwner'', ''LockedToProjectWithoutNested'']"

text \<open>
  A method that assigns to the item returns the exception it raised, if any, and the
  item as it is when the method ends.
\<close>

type_synonym 'p outcome = "error option \<times> 'p project_item"

text \<open>
  Modelled from the spec: the decorator \<^verbatim>\<open>property_is_enum\<close> of
  \<^verbatim>\<open>tableauserverclient/models/property_decorators.py\<close>, which is not among the
  sources. The spec has the setter fail with a validation error unless the value is one
  of the closed enumeration or unset, at assignment time and without applying anything.
\<close>

definition property_is_enum ::
  "string list \<Rightarrow> ('s \<Rightarrow> string option \<Rightarrow> 's) \<Rightarrow> 's \<Rightarrow> string option \<Rightarrow> error option \<times> 's" where
  "property_is_enum enum_type func self v =
     (case v of
        None \<Rightarrow> (None, func self v)
      | Some s \<Rightarrow>
          if s \<in> set enum_type then (None, func self v)
          else (Some ValidationError, self))"

text \<open>The property \<^verbatim>\<open>content_permissions\<close>: getter and decorated setter.\<close>

definition content_permissions :: "'p project_item \<Rightarrow> string option" where
  "content_permissions self = priv_content_permissions self"

definition content_permissions_setter :: "'p project_item \<Rightarrow> string option \<Rightarrow> 'p outcome" where
  "content_permissions_setter =
     property_is_enum ContentPermissions (\<lambda>self v. self\<lparr>priv_content_permissions := v\<rparr>)"

text \<open>
  \<^verbatim>\<open>__init__\<close>: \<^verbatim>\<open>_content_permissions\<close> starts as \<^verbatim>\<open>None\<close> and the argument then
  goes through the setter; when the setter raises, no item is constructed.
\<close>

definition init ::
  "string option \<Rightarrow> string option \<Rightarrow> string option \<Rightarrow> string option \<Rightarrow> bool option
     \<Rightarrow> error + 'p project_item" where
  "init name' description' content_permissions' parent_id' samples =
     (case content_permissions_setter
        \<lparr> priv_content_permissions = None,
          priv_id = None,
          description = description',
          priv_name = name',
          parent_id = parent_id',
          priv_samples = samples,
          priv_owner_id = None,
          priv_permissions = None,
          priv_default_workbook_permissions = None,
          priv_default_datasource_permissions = None,
          priv_default_flow_permissions = None,
          priv_default_lens_permissions = None,
          priv_default_datarole_permissions = None,
          priv_default_metric_permissions = None,
          priv_default_virtualconnection_permissions = None,
          priv_default_database_permissions = None,
          priv_default_table_permissions = None,
          other_attrs = Map.empty \<rparr> content_permissions' of
        (Some err, _) \<Rightarrow> Inl err
      | (None, self) \<Rightarrow> Inr self)"

text \<open>The property \<^verbatim>\<open>name\<close>, and \<^verbatim>\<open>is_default\<close>, where \<^verbatim>\<open>None.lower()\<close> is an
  \<^verbatim>\<open>AttributeError\<close>.\<close>

definition name :: "'p project_item \<Rightarrow> string option" where
  "name self = priv_name self"

definition is_default :: "'p project_item \<Rightarrow> error + bool" where
  "is_default self =
     (case name self of
        None \<Rightarrow> Inl AttributeError
      | Some s \<Rightarrow> Inr (lower s = ''default''))"

text \<open>\<^verbatim>\<open>_set_values\<close>: six guarded assignments, in the order of the source.\<close>

definition priv_set_values ::
  "'p project_item \<Rightarrow> string option \<Rightarrow> string option \<Rightarrow> string option \<Rightarrow> string option
     \<Rightarrow> string option \<Rightarrow> string option \<Rightarrow> 'p project_item" where
  "priv_set_values self project_id name' description' content_permissions' parent_id' owner_id =
     (let s1 = (if project_id \<noteq> None then self\<lparr>priv_id := project_id\<rparr> else self);
          s2 = (if truthy name' then s1\<lparr>priv_name := name'\<rparr> else s1);
          s3 = (if truthy description' then s2\<lparr>description := description'\<rparr> else s2);
          s4 = (if truthy content_permissions'
                then s3\<lparr>priv_content_permissions := content_permissions'\<rparr> else s3);
          s5 = (if truthy parent_id' then s4\<lparr>parent_id := parent_id'\<rparr> else s4);
          s6 = (if truthy owner_id then s5\<lparr>priv_owner_id := owner_id\<rparr> else s5)
      in s6)"

text \<open>
  A call of \<^verbatim>\<open>_set_values\<close> with a sequence of positional arguments: any number of
  them other than six is a \<^verbatim>\<open>TypeError\<close>, raised before the body runs.
\<close>

fun call_set_values :: "'p project_item \<Rightarrow> string option list \<Rightarrow> 'p outcome" where
  "call_set_values self [a, b, c, d, e, f] = (None, priv_set_values self a b c d e f)"
| "call_set_values self _ = (Some TypeError, self)"

text \<open>
  \<^verbatim>\<open>_parse_element\<close>: the tuple it returns is the list of its six components. The loop
  over the children assigns \<^verbatim>\<open>owner_id\<close> at every child.
\<close>

definition priv_parse_element :: "element \<Rightarrow> string option list" where
  "priv_parse_element project_xml =
     (let project_id = element_get project_xml ''id'';
          name' = element_get project_xml ''name'';
          description' = element_get project_xml ''description'';
          content_permissions' = element_get project_xml ''contentPermissions'';
          parent_id' = element_get project_xml ''parentProjectId'';
          owner_id = foldl (\<lambda>owner_id owner. element_get owner ''id'') None (children project_xml)
      in [project_id, name', description', content_permissions', parent_id', owner_id])"

text \<open>\<^verbatim>\<open>from_xml\<close>: a bare item, then \<^verbatim>\<open>_set_values\<close> called with the components of
  the tuple of \<^verbatim>\<open>_parse_element\<close> as its positional arguments.\<close>

definition from_xml :: "element \<Rightarrow> error + 'p project_item" where
  "from_xml project_xml =
     (case init None None None None None of
        Inl err \<Rightarrow> Inl err
      | Inr project_item \<Rightarrow>
          (case call_set_values project_item (priv_parse_element project_xml) of
             (Some err, _) \<Rightarrow> Inl err
           | (None, project_item') \<Rightarrow> Inr project_item'))"

text \<open>
  \<^verbatim>\<open>from_response\<close>. The parser \<^verbatim>\<open>fromstring\<close> of the library defusedxml is a
  parameter: it gives the root element of the document, or the exception it raised. The
  loop appends one item for every element that the path selects.
\<close>

fun from_response_loop ::
  "element list \<Rightarrow> 'p project_item list \<Rightarrow> error + 'p project_item list" where
  "from_response_loop [] all_project_items = Inr all_project_items"
| "from_response_loop (project_xml # rest) all_project_items =
     (case from_xml project_xml of
        Inl err \<Rightarrow> Inl err
      | Inr project_item \<Rightarrow> from_response_loop rest (all_project_items @ [project_item]))"

definition from_response ::
  "('b \<Rightarrow> error + element) \<Rightarrow> 'b \<Rightarrow> (string \<rightharpoonup> string) \<Rightarrow> error + 'p project_item list" where
  "from_response fromstring resp ns =
     (case fromstring resp of
        Inl err \<Rightarrow> Inl err
      | Inr parsed_response \<Rightarrow>
          (case findall parsed_response ns of
             Inl err \<Rightarrow> Inl err
           | Inr all_project_xml \<Rightarrow> from_response_loop all_project_xml []))"

text \<open>
  Unpacking a tuple into five targets: a tuple of any other length is a
  \<^verbatim>\<open>ValueError\<close>.
\<close>

fun unpack5 :: "'a list \<Rightarrow> error + 'a \<times> 'a \<times> 'a \<times> 'a \<times> 'a" where
  "unpack5 [a, b, c, d, e] = Inr (a, b, c, d, e)"
| "unpack5 _ = Inl ValueError"

text \<open>
  \<^verbatim>\<open>_parse_common_tags\<close>: the argument is an element, or a document that is parsed
  and searched for its first project element.
\<close>

datatype 'b xml_arg = Elem element | Raw 'b

definition priv_parse_common_tags ::
  "('b \<Rightarrow> error + element) \<Rightarrow> 'p project_item \<Rightarrow> 'b xml_arg \<Rightarrow> (string \<rightharpoonup> string)
     \<Rightarrow> 'p outcome" where
  "priv_parse_common_tags fromstring self project_xml ns =
     (case (case project_xml of
              Elem e \<Rightarrow> Inr (Some e)
            | Raw doc \<Rightarrow>
                (case fromstring doc of
                   Inl err \<Rightarrow> Inl err
                 | Inr root \<Rightarrow> find_project root ns)) of
        Inl err \<Rightarrow> (Some err, self)
      | Inr None \<Rightarrow> (None, self)
      | Inr (Some e) \<Rightarrow>
          (case unpack5 (priv_parse_element e) of
             Inl err \<Rightarrow> (Some err, self)
           | Inr (u, name', description', content_permissions', parent_id') \<Rightarrow>
               call_set_values self [None, name', description', content_permissions', parent_id']))"

section \<open>Deferred permissions\<close>

text \<open>The ten accessors: an unset slot raises, a provider is called.\<close>

definition permissions :: "'p project_item \<Rightarrow> error + 'p" where
  "permissions self =
     (case priv_permissions self of
        None \<Rightarrow> Inl (UnpopulatedPropertyError ERROR_MSG)
      | Some provider \<Rightarrow> Inr (provider ()))"

definition default_datasource_permissions :: "'p project_item \<Rightarrow> error + 'p" where
  "default_datasource_permissions self =
     (case priv_default_datasource_permissions self of
        None \<Rightarrow> Inl (UnpopulatedPropertyError ERROR_MSG)
      | Some provider \<Rightarrow> Inr (provider ()))"

definition default_workbook_permissions :: "'p project_item \<Rightarrow> error + 'p" where
  "default_workbook_permissions self =
     (case priv_default_workbook_permissions self of
        None \<Rightarrow> Inl (UnpopulatedPropertyError ERROR_MSG)
      | Some provider \<Rightarrow> Inr (provider ()))"

definition default_flow_permissions :: "'p project_item \<Rightarrow> error + 'p" where
  "default_flow_permissions self =
     (case priv_default_flow_permissions self of
        None \<Rightarrow> Inl (UnpopulatedPropertyError ERROR_MSG)
      | Some provider \<Rightarrow> Inr (provider ()))"

definition default_lens_permissions :: "'p project_item \<Rightarrow> error + 'p" where
  "default_lens_permissions self =
     (case priv_default_lens_permissions self of
        None \<Rightarrow> Inl (UnpopulatedPropertyError ERROR_MSG)
      | Some provider \<Rightarrow> Inr (provider ()))"

definition default_datarole_permissions :: "'p project_item \<Rightarrow> error + 'p" where
  "default_datarole_permissions self =
     (case priv_default_datarole_permissions self of
        None \<Rightarrow> Inl (UnpopulatedPropertyError ERROR_MSG)
      | Some provider \<Rightarrow> Inr (provider ()))"

definition default_metric_permissions :: "'p project_item \<Rightarrow> error + 'p" where
  "default_metric_permissions self =
     (case priv_default_metric_permissions self of
        None \<Rightarrow> Inl (UnpopulatedPropertyError ERROR_MSG)
      | Some provider \<Rightarrow> Inr (provider ()))"

definition default_virtualconnection_permissions :: "'p project_item \<Rightarrow> error + 'p" where
  "default_virtualconnection_permissions self =
     (case priv_default_virtualconnection_permissions self of
        None \<Rightarrow> Inl (UnpopulatedPropertyError ERROR_MSG)
      | Some provider \<Rightarrow> Inr (provider ()))"

definition default_database_permissions :: "'p project_item \<Rightarrow> error + 'p" where
  "default_database_permissions self =
     (case priv_default_database_permissions self of
        None \<Rightarrow> Inl (UnpopulatedPropertyError ERROR_MSG)
      | Some provider \<Rightarrow> Inr (provider ()))"

definition default_table_permissions :: "'p project_item \<Rightarrow> error + 'p" where
  "default_table_permissions self =
     (case priv_default_table_permissions self of
        None \<Rightarrow> Inl (UnpopulatedPropertyError ERROR_MSG)
      | Some provider \<Rightarrow> Inr (provider ()))"

text \<open>The population calls. \<^verbatim>\<open>_set_default_permissions\<close> computes the name of the
  attribute from the content type and assigns to the attribute of that name.\<close>

definition priv_set_permissions :: "'p project_item \<Rightarrow> (unit \<Rightarrow> 'p) option \<Rightarrow> 'p project_item" where
  "priv_set_permissions self permissions' = self\<lparr>priv_permissions := permissions'\<rparr>"

definition priv_set_default_permissions ::
  "'p project_item \<Rightarrow> (unit \<Rightarrow> 'p) option \<Rightarrow> string \<Rightarrow> 'p project_item" where
  "priv_set_default_permissions self permissions' content_type =
     (let attr = lower (''_default_'' @ content_type @ ''_permissions'')
      in if attr = ''_default_workbook_permissions''
         then self\<lparr>priv_default_workbook_permissions := permissions'\<rparr>
         else if attr = ''_default_datasource_permissions''
         then self\<lparr>priv_default_datasource_permissions := permissions'\<rparr>
         else if attr = ''_default_flow_permissions''
         then self\<lparr>priv_default_flow_permissions := permissions'\<rparr>
         else if attr = ''_default_lens_permissions''
         then self\<lparr>priv_default_lens_permissions := permissions'\<rparr>
         else if attr = ''_default_datarole_permissions''
         then self\<lparr>priv_default_datarole_permissions := permissions'\<rparr>
         else if attr = ''_default_metric_permissions''
         then self\<lparr>priv_default_metric_permissions := permissions'\<rparr>
         else if attr = ''_default_virtualconnection_permissions''
         then self\<lparr>priv_default_virtualconnection_permissions := permissions'\<rparr>
         else if attr = ''_default_database_permissions''
         then self\<lparr>priv_default_database_permissions := permissions'\<rparr>
         else if attr = ''_default_table_permissions''
         then self\<lparr>priv_default_table_permissions := permissions'\<rparr>
         else self\<lparr>other_attrs := (other_attrs self)(attr \<mapsto> permissions')\<rparr>)"

section \<open>The owner id as the specification words it\<close>

text \<open>
  The specification's reading of the owner id, for comparison with
  \<open>priv_parse_element\<close>: the \<^verbatim>\<open>id\<close> attribute of the first child that carries one,
  and \<^verbatim>\<open>None\<close> when there is no such child.
\<close>

definition spec_first_child_id :: "element \<Rightarrow> string option" where
  "spec_first_child_id project_xml =
     (case filter (\<lambda>c. element_get c ''id'' \<noteq> None) (children project_xml) of
        [] \<Rightarrow> None
      | c # _ \<Rightarrow> element_get c ''id'')"

section \<open>Example inputs\<close>

text \<open>
  Concrete items, elements and documents at which the theorems below are evaluated.
  \<open>bare_item\<close> is the item that \<^verbatim>\<open>ProjectItem()\<close> constructs.
\<close>

definition bare_item :: "'p project_item" where
  "bare_item =
     \<lparr> priv_content_permissions = None,
       priv_id = None,
       description = None,
       priv_name = None,
       parent_id = None,
       priv_samples = None,
       priv_owner_id = None,
       priv_permissions = None,
       priv_default_workbook_permissions = None,
       priv_default_datasource_permissions = None,
       priv_default_flow_permissions = None,
       priv_default_lens_permissions = None,
       priv_default_datarole_permissions = None,
       priv_default_metric_permissions = None,
       priv_default_virtualconnection_permissions = None,
       priv_default_database_permissions = None,
       priv_default_table_permissions = None,
       other_attrs = Map.empty \<rparr>"

definition example_item :: "'p project_item" where
  "example_item =
     bare_item\<lparr> priv_id := Some ''p1'', description := Some ''d1'', priv_name := Some ''A'' \<rparr>"

definition example_ns :: "string \<rightharpoonup> string" where
  "example_ns = [''t'' \<mapsto> ''http://tableau.com/api'']"

definition example_two_owners :: element where
  "example_two_owners =
     Element ''{http://tableau.com/api}project''
       [(''id'', ''p7''), (''name'', ''Sales''), (''description'', []),
        (''contentPermissions'', ''ManagedByOwner'')]
       [Element ''{http://tableau.com/api}owner'' [(''id'', ''u1'')] [],
        Element ''{http://tableau.com/api}owner'' [(''id'', ''u2'')] []]"

definition example_bogus :: element where
  "example_bogus =
     Element ''{http://tableau.com/api}project''
       [(''id'', ''p8''), (''name'', ''Ops''), (''contentPermissions'', ''Bogus'')] []"

definition example_response :: element where
  "example_response =
     Element ''{http://tableau.com/api}tsResponse'' []
       [Element ''{http://tableau.com/api}projects'' [] [example_two_owners, example_bogus]]"

section \<open>Basic facts\<close>

lemma truthy_iff: "truthy v \<longleftrightarrow> v \<noteq> None \<and> v \<noteq> Some []"
  by (cases v) (simp_all add: truthy_def)

lemma setter_unfold:
  "content_permissions_setter self v =
     (if v = None \<or> v \<in> Some ` set ContentPermissions
      then (None, self\<lparr>priv_content_permissions := v\<rparr>) else (Some ValidationError, self))"
  by (cases v) (auto simp add: content_permissions_setter_def property_is_enum_def)

section \<open>The setter of the content permissions\<close>

text \<open>
  C3. Assigning \<open>v\<close> to \<^verbatim>\<open>content_permissions\<close> raises the validation error exactly
  when \<open>v\<close> is not \<^verbatim>\<open>None\<close> and not one of the three members of
  \<^verbatim>\<open>ContentPermissions\<close>; the assignment succeeds exactly when \<open>v\<close> is \<^verbatim>\<open>None\<close> or a
  member, and the getter then returns \<open>v\<close>.
\<close>

theorem content_permissions_setter_validates:
  "(fst (content_permissions_setter self v) = Some ValidationError) =
     (v \<noteq> None \<and> v \<notin> {Some ''LockedToProject'', Some ''ManagedByOwner'',
                          Some ''LockedToProjectWithoutNested''})
   \<and> (fst (content_permissions_setter self v) = None) =
     (v \<in> {None, Some ''LockedToProject'', Some ''ManagedByOwner'',
            Some ''LockedToProjectWithoutNested''})
   \<and> (fst (content_permissions_setter self v) = None \<longrightarrow>
        content_permissions (snd (content_permissions_setter self v)) = v)"
  by (auto simp add: setter_unfold ContentPermissions_def content_permissions_def)

theorem content_permissions_setter_validates_witness:
  "fst (content_permissions_setter (example_item :: nat project_item) (Some ''Bogus''))
     = Some ValidationError
   \<and> fst (content_permissions_setter (example_item :: nat project_item) (Some ''ManagedByOwner''))
     = None
   \<and> content_permissions
        (snd (content_permissions_setter (example_item :: nat project_item) (Some ''ManagedByOwner'')))
     = Some ''ManagedByOwner''
   \<and> content_permissions (snd (content_permissions_setter (example_item :: nat project_item) None))
     = None"
  using content_permissions_setter_validates [of "example_item :: nat project_item" "Some ''Bogus''"]
        content_permissions_setter_validates [of "example_item :: nat project_item" "Some ''ManagedByOwner''"]
        content_permissions_setter_validates [of "example_item :: nat project_item" None]
  by simp

text \<open>
  C8. A failed assignment changes nothing: for a value that is neither \<^verbatim>\<open>None\<close> nor a
  member, the setter raises the validation error and the item, with every field of it,
  is the item before the assignment.
\<close>

theorem content_permissions_setter_atomic:
  "v \<noteq> None \<Longrightarrow> v \<notin> Some ` set ContentPermissions \<Longrightarrow>
     content_permissions_setter self v = (Some ValidationError, self)"
  by (simp add: setter_unfold)

theorem content_permissions_setter_atomic_witness:
  "content_permissions_setter (example_item :: nat project_item) (Some ''lockedtoproject'')
     = (Some ValidationError, example_item)"
  using content_permissions_setter_atomic
          [of "Some ''lockedtoproject''" "example_item :: nat project_item"]
  by (simp add: ContentPermissions_def)

section \<open>The default project\<close>

text \<open>
  C7. \<^verbatim>\<open>is_default\<close> returns true exactly when the item has a name whose lower-case form
  is the string \<^verbatim>\<open>default\<close>; it returns false for every other name, and an item
  without a name raises instead of returning. The name \<^verbatim>\<open>Default\<close> gives true, and
  \<^verbatim>\<open>default\<close> followed by a space gives false.
\<close>

theorem is_default_iff:
  "(is_default self = Inr True) = (\<exists>s. name self = Some s \<and> lower s = ''default'')
   \<and> (is_default self = Inr False) = (\<exists>s. name self = Some s \<and> lower s \<noteq> ''default'')
   \<and> (is_default self = Inl AttributeError) = (name self = None)
   \<and> is_default (self\<lparr>priv_name := Some ''Default''\<rparr>) = Inr True
   \<and> is_default (self\<lparr>priv_name := Some ''default ''\<rparr>) = Inr False"
proof -
  have l1: "lower ''Default'' = ''default''" by code_simp
  have l2: "lower ''default '' \<noteq> ''default''" by (simp add: lower_def)
  show ?thesis
    by (cases "name self") (simp_all add: is_default_def name_def l1 l2)
qed

theorem is_default_iff_witness:
  "is_default ((example_item :: nat project_item)\<lparr>priv_name := Some ''DEFAULT''\<rparr>) = Inr True
   \<and> is_default (example_item :: nat project_item) = Inr False
   \<and> is_default ((example_item :: nat project_item)\<lparr>priv_name := None\<rparr>) = Inl AttributeError"
proof -
  have l: "lower ''DEFAULT'' = ''default''" "lower ''A'' \<noteq> ''default''" by code_simp+
  show ?thesis
    using is_default_iff [of "(example_item :: nat project_item)\<lparr>priv_name := Some ''DEFAULT''\<rparr>"]
          is_default_iff [of "example_item :: nat project_item"]
          is_default_iff [of "(example_item :: nat project_item)\<lparr>priv_name := None\<rparr>"]
    by (simp add: name_def example_item_def bare_item_def l)
qed

section \<open>Merging parsed values into an item\<close>

text \<open>
  C4, as amended. \<^verbatim>\<open>_set_values\<close> overwrites the id whenever the incoming id is not
  \<^verbatim>\<open>None\<close> (an empty id included), and overwrites each of name, description,
  content-permission mode, parent id and owner id exactly when its incoming value is
  neither \<^verbatim>\<open>None\<close> nor empty; every other field keeps its prior value. With name
  \<^verbatim>\<open>A\<close> and description \<^verbatim>\<open>d1\<close>, an incoming empty name and description \<^verbatim>\<open>d2\<close>
  give name \<^verbatim>\<open>A\<close> and description \<^verbatim>\<open>d2\<close>.
\<close>

theorem set_values_merge:
  "priv_set_values self project_id name' description' content_permissions' parent_id' owner_id =
     self\<lparr> priv_id := (if project_id \<noteq> None then project_id else priv_id self),
           priv_name := (if name' \<noteq> None \<and> name' \<noteq> Some [] then name' else priv_name self),
           description :=
             (if description' \<noteq> None \<and> description' \<noteq> Some [] then description'
              else description self),
           priv_content_permissions :=
             (if content_permissions' \<noteq> None \<and> content_permissions' \<noteq> Some []
              then content_permissions' else priv_content_permissions self),
           parent_id :=
             (if parent_id' \<noteq> None \<and> parent_id' \<noteq> Some [] then parent_id' else parent_id self),
           priv_owner_id :=
             (if owner_id \<noteq> None \<and> owner_id \<noteq> Some [] then owner_id else priv_owner_id self) \<rparr>"
  by (simp add: priv_set_values_def truthy_iff Let_def)

theorem set_values_merge_witness:
  "priv_name (priv_set_values (example_item :: nat project_item)
                None (Some []) (Some ''d2'') None None None) = Some ''A''
   \<and> description (priv_set_values (example_item :: nat project_item)
                None (Some []) (Some ''d2'') None None None) = Some ''d2''
   \<and> priv_id (priv_set_values (example_item :: nat project_item)
                None (Some []) (Some ''d2'') None None None) = Some ''p1''"
  using set_values_merge
          [of "example_item :: nat project_item" None "Some []" "Some ''d2''" None None None]
  by (simp add: example_item_def bare_item_def)

text \<open>
  The claim as it was stated fails for the id: an incoming empty id replaces the id
  \<^verbatim>\<open>p1\<close> of the item.
\<close>

theorem set_values_empty_id_counterexample:
  "priv_id (example_item :: nat project_item) = Some ''p1''
   \<and> priv_id (priv_set_values (example_item :: nat project_item)
                (Some []) None None None None None) = Some []"
  by (simp add: priv_set_values_def truthy_def example_item_def bare_item_def)

section \<open>Parsing one element\<close>

text \<open>The loop over the children leaves the \<^verbatim>\<open>id\<close> attribute of the last child.\<close>

lemma owner_loop:
  "foldl (\<lambda>owner_id owner. element_get owner ''id'') a cs =
     (if cs = [] then a else element_get (last cs) ''id'')"
  by (induction cs arbitrary: a) simp_all

lemma parse_element_eq:
  "priv_parse_element project_xml =
     [element_get project_xml ''id'', element_get project_xml ''name'',
      element_get project_xml ''description'', element_get project_xml ''contentPermissions'',
      element_get project_xml ''parentProjectId'',
      (if children project_xml = [] then None
       else element_get (last (children project_xml)) ''id'')]"
  by (simp add: priv_parse_element_def owner_loop Let_def)

lemma init_bare: "init None None None None None = Inr bare_item"
  by (simp add: init_def setter_unfold bare_item_def)

lemma from_xml_eq:
  "from_xml project_xml =
     Inr (priv_set_values bare_item
            (element_get project_xml ''id'') (element_get project_xml ''name'')
            (element_get project_xml ''description'')
            (element_get project_xml ''contentPermissions'')
            (element_get project_xml ''parentProjectId'')
            (if children project_xml = [] then None
             else element_get (last (children project_xml)) ''id''))"
  by (simp add: from_xml_def init_bare parse_element_eq)

text \<open>
  C1, as amended. The owner id that \<^verbatim>\<open>_parse_element\<close> returns is the \<^verbatim>\<open>id\<close>
  attribute of the last immediate child: \<^verbatim>\<open>None\<close> when the element has no children or
  when the last child carries no such attribute. \<^verbatim>\<open>from_xml\<close> stores it in the item
  unless it is empty. For an element with two or more children that carry an id, the id
  of the last child is the one returned.
\<close>

theorem parse_element_owner_is_last_child:
  "priv_parse_element project_xml ! 5 =
     (if children project_xml = [] then None
      else element_get (last (children project_xml)) ''id'')
   \<and> (\<exists>project_item :: 'p project_item.
         from_xml project_xml = Inr project_item
         \<and> priv_owner_id project_item =
             (if children project_xml = [] then None
              else if element_get (last (children project_xml)) ''id'' = Some [] then None
              else element_get (last (children project_xml)) ''id''))"
  by (simp add: parse_element_eq from_xml_eq priv_set_values_def Let_def truthy_iff bare_item_def)

theorem parse_element_owner_is_last_child_witness:
  "priv_parse_element example_two_owners ! 5 = Some ''u2''
   \<and> (\<exists>project_item :: nat project_item.
         from_xml example_two_owners = Inr project_item \<and> priv_owner_id project_item = Some ''u2'')"
  using parse_element_owner_is_last_child [of example_two_owners, where ?'p = nat]
  by (simp add: example_two_owners_def element_get_def)

text \<open>
  The claim as it was stated fails where two children carry an id: the first child's id
  is \<^verbatim>\<open>u1\<close>, and the id returned is \<^verbatim>\<open>u2\<close>.
\<close>

theorem parse_element_owner_counterexample:
  "priv_parse_element example_two_owners ! 5 = Some ''u2''
   \<and> spec_first_child_id example_two_owners = Some ''u1''"
  by (simp add: priv_parse_element_def spec_first_child_id_def example_two_owners_def
        element_get_def)

section \<open>Parsing a response\<close>

lemma set_values_fields:
  "priv_id (priv_set_values self a b c d e f) = (if a \<noteq> None then a else priv_id self)"
  "priv_name (priv_set_values self a b c d e f) = (if truthy b then b else priv_name self)"
  "description (priv_set_values self a b c d e f) = (if truthy c then c else description self)"
  "priv_content_permissions (priv_set_values self a b c d e f) =
     (if truthy d then d else priv_content_permissions self)"
  "parent_id (priv_set_values self a b c d e f) = (if truthy e then e else parent_id self)"
  "priv_owner_id (priv_set_values self a b c d e f) = (if truthy f then f else priv_owner_id self)"
  by (simp_all add: priv_set_values_def Let_def)

lemma bare_item_fields:
  "priv_id bare_item = None" "priv_name bare_item = None" "description bare_item = None"
  "priv_content_permissions bare_item = None" "parent_id bare_item = None"
  "priv_owner_id bare_item = None"
  by (simp_all add: bare_item_def)

lemma from_xml_fields:
  "priv_id (projr (from_xml e)) = element_get e ''id''"
  "priv_name (projr (from_xml e)) =
     (if element_get e ''name'' = Some [] then None else element_get e ''name'')"
  "description (projr (from_xml e)) =
     (if element_get e ''description'' = Some [] then None else element_get e ''description'')"
  "priv_content_permissions (projr (from_xml e)) =
     (if element_get e ''contentPermissions'' = Some [] then None
      else element_get e ''contentPermissions'')"
  "parent_id (projr (from_xml e)) =
     (if element_get e ''parentProjectId'' = Some [] then None
      else element_get e ''parentProjectId'')"
  by (simp_all add: from_xml_eq set_values_fields bare_item_fields truthy_iff)

text \<open>The loop appends the item of every element, in the order of the elements.\<close>

lemma from_response_loop_eq:
  "from_response_loop xs acc = Inr (acc @ map (\<lambda>e. projr (from_xml e)) xs)"
  by (induction xs arbitrary: acc) (simp_all add: from_xml_eq)

lemma from_response_eq:
  "fromstring resp = Inr root \<Longrightarrow> findall root ns = Inr all_project_xml \<Longrightarrow>
     from_response fromstring resp ns = Inr (map (\<lambda>e. projr (from_xml e)) all_project_xml)"
  by (simp add: from_response_def from_response_loop_eq)

lemma findall_example:
  "findall example_response example_ns = Inr [example_two_owners, example_bogus]"
  by (simp add: findall_def project_path_def example_ns_def example_response_def
        example_two_owners_def example_bogus_def)

lemma example_attributes:
  "element_get example_two_owners ''id'' = Some ''p7''"
  "element_get example_two_owners ''name'' = Some ''Sales''"
  "element_get example_two_owners ''description'' = Some []"
  "element_get example_two_owners ''contentPermissions'' = Some ''ManagedByOwner''"
  "element_get example_two_owners ''parentProjectId'' = None"
  "element_get example_bogus ''id'' = Some ''p8''"
  "element_get example_bogus ''name'' = Some ''Ops''"
  "element_get example_bogus ''description'' = None"
  "element_get example_bogus ''contentPermissions'' = Some ''Bogus''"
  "element_get example_bogus ''parentProjectId'' = None"
  by (simp_all add: example_two_owners_def example_bogus_def element_get_def)

text \<open>
  C6, as amended. For a document that parses and whose project elements, in document
  order, are \<open>all_project_xml\<close>, \<^verbatim>\<open>from_response\<close> returns one item for every
  element, in that order. The id of the k-th item is the \<^verbatim>\<open>id\<close> attribute of the
  k-th element (\<^verbatim>\<open>None\<close> when absent); its name, description, content-permission mode
  and parent id are the corresponding attributes when these are present and not empty,
  and \<^verbatim>\<open>None\<close> when the attribute is absent or empty.
\<close>

theorem from_response_items:
  assumes "fromstring resp = Inr root" and "findall root ns = Inr all_project_xml"
  shows "\<exists>all_project_items :: 'p project_item list.
           from_response fromstring resp ns = Inr all_project_items
           \<and> length all_project_items = length all_project_xml
           \<and> map priv_id all_project_items = map (\<lambda>e. element_get e ''id'') all_project_xml
           \<and> map priv_name all_project_items =
               map (\<lambda>e. if element_get e ''name'' = Some [] then None
                        else element_get e ''name'') all_project_xml
           \<and> map description all_project_items =
               map (\<lambda>e. if element_get e ''description'' = Some [] then None
                        else element_get e ''description'') all_project_xml
           \<and> map priv_content_permissions all_project_items =
               map (\<lambda>e. if element_get e ''contentPermissions'' = Some [] then None
                        else element_get e ''contentPermissions'') all_project_xml
           \<and> map parent_id all_project_items =
               map (\<lambda>e. if element_get e ''parentProjectId'' = Some [] then None
                        else element_get e ''parentProjectId'') all_project_xml"
proof -
  have "from_response fromstring resp ns =
          Inr (map (\<lambda>e. projr (from_xml e) :: 'p project_item) all_project_xml)"
    using assms by (rule from_response_eq)
  then show ?thesis
    by (simp add: from_xml_fields o_def)
qed

theorem from_response_items_witness:
  "\<exists>all_project_items :: nat project_item list.
     from_response Inr example_response example_ns = Inr all_project_items
     \<and> length all_project_items = length [example_two_owners, example_bogus]
     \<and> map priv_id all_project_items = [Some ''p7'', Some ''p8'']
     \<and> map priv_name all_project_items = [Some ''Sales'', Some ''Ops'']
     \<and> map description all_project_items = [None, None]
     \<and> map priv_content_permissions all_project_items = [Some ''ManagedByOwner'', Some ''Bogus'']
     \<and> map parent_id all_project_items = [None, None]"
  using from_response_items
          [of Inr example_response example_response example_ns
              "[example_two_owners, example_bogus]", where ?'p = nat]
        findall_example
  by (simp add: example_attributes)

text \<open>
  The claim as it was stated fails at an attribute that is present and empty: the first
  project element of the example response has the description \<^verbatim>\<open>""\<close>, and the
  description of the first item is \<^verbatim>\<open>None\<close>.
\<close>

theorem from_response_empty_attribute_counterexample:
  "findall example_response example_ns = Inr [example_two_owners, example_bogus]
   \<and> element_get example_two_owners ''description'' = Some []
   \<and> map_sum id (map description)
       (from_response Inr example_response example_ns :: error + nat project_item list)
     = Inr [None, None]"
  by (simp add: from_response_eq [of Inr example_response example_response, OF _ findall_example]
        findall_example from_xml_fields example_attributes)

section \<open>The stored content-permission mode\<close>

lemma init_cases:
  "init name' description' cp parent_id' samples =
     (if cp = None \<or> cp \<in> Some ` set ContentPermissions
      then Inr (bare_item\<lparr>description := description', priv_name := name',
                          parent_id := parent_id', priv_samples := samples,
                          priv_content_permissions := cp\<rparr>)
      else Inl ValidationError)"
  by (simp add: init_def setter_unfold bare_item_def)

text \<open>
  C2, as amended. Construction stores the content-permission mode it is given, and
  succeeds only for \<^verbatim>\<open>None\<close> or a member of the closed set; the setter keeps a
  stored mode that is \<^verbatim>\<open>None\<close> or a member within that set. \<^verbatim>\<open>_set_values\<close>
  does not validate: it stores every incoming mode that is neither \<^verbatim>\<open>None\<close> nor
  empty, and keeps the prior mode otherwise. So \<^verbatim>\<open>from_xml\<close> and
  \<^verbatim>\<open>from_response\<close> store the \<^verbatim>\<open>contentPermissions\<close> attribute of an element
  whenever it is present and not empty, a member or not.
\<close>

theorem content_permissions_stored:
  "(case init name' description' cp parent_id' samples of
      Inl err \<Rightarrow> err = ValidationError \<and> cp \<notin> insert None (Some ` set ContentPermissions)
    | Inr (project_item :: 'p project_item) \<Rightarrow>
        priv_content_permissions project_item = cp
        \<and> cp \<in> insert None (Some ` set ContentPermissions))
   \<and> (priv_content_permissions self \<in> insert None (Some ` set ContentPermissions) \<longrightarrow>
        priv_content_permissions (snd (content_permissions_setter self v))
          \<in> insert None (Some ` set ContentPermissions))
   \<and> priv_content_permissions
        (priv_set_values self project_id new_name new_description new_cp new_parent_id owner_id) =
        (if new_cp \<noteq> None \<and> new_cp \<noteq> Some [] then new_cp else priv_content_permissions self)
   \<and> (\<exists>project_item :: 'p project_item.
         from_xml project_xml = Inr project_item
         \<and> priv_content_permissions project_item =
             (if element_get project_xml ''contentPermissions'' = Some [] then None
              else element_get project_xml ''contentPermissions''))
   \<and> (fromstring resp = Inr root \<and> findall root ns = Inr all_project_xml \<longrightarrow>
        (\<exists>all_project_items :: 'p project_item list.
           from_response fromstring resp ns = Inr all_project_items
           \<and> map priv_content_permissions all_project_items =
               map (\<lambda>e. if element_get e ''contentPermissions'' = Some [] then None
                        else element_get e ''contentPermissions'') all_project_xml))"
proof -
  have a: "case init name' description' cp parent_id' samples of
      Inl err \<Rightarrow> err = ValidationError \<and> cp \<notin> insert None (Some ` set ContentPermissions)
    | Inr (project_item :: 'p project_item) \<Rightarrow>
        priv_content_permissions project_item = cp
        \<and> cp \<in> insert None (Some ` set ContentPermissions)"
    by (auto simp add: init_cases)
  have b: "priv_content_permissions self \<in> insert None (Some ` set ContentPermissions) \<longrightarrow>
        priv_content_permissions (snd (content_permissions_setter self v))
          \<in> insert None (Some ` set ContentPermissions)"
    by (auto simp add: setter_unfold)
  have c: "priv_content_permissions
        (priv_set_values self project_id new_name new_description new_cp new_parent_id owner_id) =
        (if new_cp \<noteq> None \<and> new_cp \<noteq> Some [] then new_cp else priv_content_permissions self)"
    by (simp add: set_values_fields truthy_iff)
  have d: "\<exists>project_item :: 'p project_item.
         from_xml project_xml = Inr project_item
         \<and> priv_content_permissions project_item =
             (if element_get project_xml ''contentPermissions'' = Some [] then None
              else element_get project_xml ''contentPermissions'')"
    by (simp add: from_xml_eq set_values_fields bare_item_fields truthy_iff)
  have e: "fromstring resp = Inr root \<and> findall root ns = Inr all_project_xml \<longrightarrow>
        (\<exists>all_project_items :: 'p project_item list.
           from_response fromstring resp ns = Inr all_project_items
           \<and> map priv_content_permissions all_project_items =
               map (\<lambda>e. if element_get e ''contentPermissions'' = Some [] then None
                        else element_get e ''contentPermissions'') all_project_xml)"
    by (auto simp add: from_response_eq from_xml_fields o_def)
  from a b c d e show ?thesis by blast
qed

theorem content_permissions_stored_witness:
  "(\<exists>project_item :: nat project_item.
      init (Some ''A'') None (Some ''LockedToProject'') None None = Inr project_item
      \<and> priv_content_permissions project_item = Some ''LockedToProject'')
   \<and> priv_content_permissions
        (snd (content_permissions_setter (example_item :: nat project_item) (Some ''Bogus''))) = None
   \<and> priv_content_permissions
        (priv_set_values (example_item :: nat project_item) None None None (Some ''Bogus'') None None)
       = Some ''Bogus''
   \<and> (\<exists>project_item :: nat project_item.
         from_xml example_bogus = Inr project_item
         \<and> priv_content_permissions project_item = Some ''Bogus'')
   \<and> (\<exists>all_project_items :: nat project_item list.
         from_response Inr example_response example_ns = Inr all_project_items
         \<and> map priv_content_permissions all_project_items
             = [Some ''ManagedByOwner'', Some ''Bogus''])"
  using content_permissions_stored
          [where name' = "Some ''A''" and description' = None
             and cp = "Some ''LockedToProject''" and parent_id' = None and samples = None
             and self = "example_item :: nat project_item" and v = "Some ''Bogus''"
             and project_id = None and new_name = None and new_description = None
             and new_cp = "Some ''Bogus''" and new_parent_id = None and owner_id = None
             and project_xml = example_bogus and fromstring = Inr
             and resp = example_response and root = example_response and ns = example_ns
             and all_project_xml = "[example_two_owners, example_bogus]" and ?'p = nat]
        findall_example
  by (simp add: example_attributes ContentPermissions_def example_item_def bare_item_def
        setter_unfold split: sum.splits)

text \<open>
  The claim as it was stated fails for parsing: an element whose
  \<^verbatim>\<open>contentPermissions\<close> attribute is \<^verbatim>\<open>Bogus\<close> gives an item that stores
  \<^verbatim>\<open>Bogus\<close>, which is neither \<^verbatim>\<open>None\<close> nor a member.
\<close>

theorem from_xml_unvalidated_counterexample:
  "map_sum id priv_content_permissions (from_xml example_bogus :: error + nat project_item)
     = Inr (Some ''Bogus'')
   \<and> Some ''Bogus'' \<notin> insert None (Some ` set ContentPermissions)"
  by (simp add: from_xml_eq set_values_fields truthy_def example_attributes ContentPermissions_def)

section \<open>The partial update from a response\<close>

lemma unpack5_parse_element: "unpack5 (priv_parse_element e) = Inl ValueError"
  by (simp add: parse_element_eq)

text \<open>
  C10, as amended. Whenever \<^verbatim>\<open>_parse_common_tags\<close> has a project element (the
  argument is an element, or the document parses and the path finds one), it raises a
  \<^verbatim>\<open>ValueError\<close> and leaves every field of the item as it was: the six values of
  \<^verbatim>\<open>_parse_element\<close> do not unpack into five targets. The call of
  \<^verbatim>\<open>_set_values\<close> with five arguments, which would raise a \<^verbatim>\<open>TypeError\<close>, is
  never reached. So the method never completes on a matching document.
\<close>

theorem parse_common_tags_raises_ValueError:
  "priv_parse_common_tags fromstring self (Elem e) ns = (Some ValueError, self)
   \<and> (fromstring doc = Inr root \<and> find_project root ns = Inr (Some e) \<longrightarrow>
        priv_parse_common_tags fromstring self (Raw doc) ns = (Some ValueError, self))
   \<and> call_set_values self [None, a, b, c, d] = (Some TypeError, self)"
  by (simp add: priv_parse_common_tags_def unpack5_parse_element)

lemma find_project_example: "find_project example_response example_ns = Inr (Some example_two_owners)"
  by (simp add: find_project_def findall_example)

theorem parse_common_tags_raises_ValueError_witness:
  "priv_parse_common_tags Inr (example_item :: nat project_item) (Elem example_two_owners) example_ns
     = (Some ValueError, example_item)
   \<and> priv_parse_common_tags Inr (example_item :: nat project_item) (Raw example_response) example_ns
     = (Some ValueError, example_item)"
  using parse_common_tags_raises_ValueError
          [where fromstring = Inr and self = "example_item :: nat project_item"
             and e = example_two_owners and ns = example_ns and doc = example_response
             and root = example_response]
        find_project_example
  by simp

text \<open>
  The claim as it was stated names the wrong exception: on an element the method raises
  a \<^verbatim>\<open>ValueError\<close>, not a \<^verbatim>\<open>TypeError\<close>.
\<close>

theorem parse_common_tags_not_TypeError_counterexample:
  "fst (priv_parse_common_tags Inr (example_item :: nat project_item)
          (Elem example_two_owners) example_ns) = Some ValueError
   \<and> fst (priv_parse_common_tags Inr (example_item :: nat project_item)
          (Elem example_two_owners) example_ns) \<noteq> Some TypeError"
  by (simp add: priv_parse_common_tags_def unpack5_parse_element)

section \<open>Reading and populating the deferred permissions\<close>

text \<open>The name of the attribute that \<^verbatim>\<open>_set_default_permissions\<close> assigns to.\<close>

lemma lower_append: "lower (a @ b) = lower a @ lower b"
  by (simp add: lower_def)

lemma lower_prefix: "lower ''_default_'' = ''_default_''"
  by code_simp

lemma lower_suffix: "lower ''_permissions'' = ''_permissions''"
  by code_simp

lemma attr_lower:
  "lower (''_default_'' @ content_type @ ''_permissions'') =
     ''_default_'' @ lower content_type @ ''_permissions''"
  unfolding lower_append lower_prefix lower_suffix by (rule refl)

lemma set_default_workbook:
  "lower content_type = ''workbook'' \<Longrightarrow>
     priv_set_default_permissions self p content_type =
       self\<lparr>priv_default_workbook_permissions := p\<rparr>"
  unfolding priv_set_default_permissions_def Let_def attr_lower by simp

lemma set_default_datasource:
  "lower content_type = ''datasource'' \<Longrightarrow>
     priv_set_default_permissions self p content_type =
       self\<lparr>priv_default_datasource_permissions := p\<rparr>"
  unfolding priv_set_default_permissions_def Let_def attr_lower by simp

lemma set_default_flow:
  "lower content_type = ''flow'' \<Longrightarrow>
     priv_set_default_permissions self p content_type =
       self\<lparr>priv_default_flow_permissions := p\<rparr>"
  unfolding priv_set_default_permissions_def Let_def attr_lower by simp

lemma set_default_lens:
  "lower content_type = ''lens'' \<Longrightarrow>
     priv_set_default_permissions self p content_type =
       self\<lparr>priv_default_lens_permissions := p\<rparr>"
  unfolding priv_set_default_permissions_def Let_def attr_lower by simp

lemma set_default_datarole:
  "lower content_type = ''datarole'' \<Longrightarrow>
     priv_set_default_permissions self p content_type =
       self\<lparr>priv_default_datarole_permissions := p\<rparr>"
  unfolding priv_set_default_permissions_def Let_def attr_lower by simp

lemma set_default_metric:
  "lower content_type = ''metric'' \<Longrightarrow>
     priv_set_default_permissions self p content_type =
       self\<lparr>priv_default_metric_permissions := p\<rparr>"
  unfolding priv_set_default_permissions_def Let_def attr_lower by simp

lemma set_default_virtualconnection:
  "lower content_type = ''virtualconnection'' \<Longrightarrow>
     priv_set_default_permissions self p content_type =
       self\<lparr>priv_default_virtualconnection_permissions := p\<rparr>"
  unfolding priv_set_default_permissions_def Let_def attr_lower by simp

lemma set_default_database:
  "lower content_type = ''database'' \<Longrightarrow>
     priv_set_default_permissions self p content_type =
       self\<lparr>priv_default_database_permissions := p\<rparr>"
  unfolding priv_set_default_permissions_def Let_def attr_lower by simp

lemma set_default_table:
  "lower content_type = ''table'' \<Longrightarrow>
     priv_set_default_permissions self p content_type =
       self\<lparr>priv_default_table_permissions := p\<rparr>"
  unfolding priv_set_default_permissions_def Let_def attr_lower by simp

lemma permissions_unset:
  "(permissions self = Inl (UnpopulatedPropertyError ERROR_MSG)) = (priv_permissions self = None)"
  by (simp add: permissions_def split: option.split)

lemma permissions_populated:
  "permissions (priv_set_permissions self (Some provider)) = Inr (provider ())"
  by (simp add: permissions_def priv_set_permissions_def)

lemma default_workbook_unset:
  "(default_workbook_permissions self = Inl (UnpopulatedPropertyError ERROR_MSG)) =
     (priv_default_workbook_permissions self = None)"
  by (simp add: default_workbook_permissions_def split: option.split)

lemma default_workbook_populated:
  "lower content_type = ''workbook'' \<Longrightarrow>
     default_workbook_permissions (priv_set_default_permissions self (Some provider) content_type) =
       Inr (provider ())"
  by (simp add: set_default_workbook default_workbook_permissions_def)

lemma default_datasource_unset:
  "(default_datasource_permissions self = Inl (UnpopulatedPropertyError ERROR_MSG)) =
     (priv_default_datasource_permissions self = None)"
  by (simp add: default_datasource_permissions_def split: option.split)

lemma default_datasource_populated:
  "lower content_type = ''datasource'' \<Longrightarrow>
     default_datasource_permissions (priv_set_default_permissions self (Some provider) content_type) =
       Inr (provider ())"
  by (simp add: set_default_datasource default_datasource_permissions_def)

lemma default_flow_unset:
  "(default_flow_permissions self = Inl (UnpopulatedPropertyError ERROR_MSG)) =
     (priv_default_flow_permissions self = None)"
  by (simp add: default_flow_permissions_def split: option.split)

lemma default_flow_populated:
  "lower content_type = ''flow'' \<Longrightarrow>
     default_flow_permissions (priv_set_default_permissions self (Some provider) content_type) =
       Inr (provider ())"
  by (simp add: set_default_flow default_flow_permissions_def)

lemma default_lens_unset:
  "(default_lens_permissions self = Inl (UnpopulatedPropertyError ERROR_MSG)) =
     (priv_default_lens_permissions self = None)"
  by (simp add: default_lens_permissions_def split: option.split)

lemma default_lens_populated:
  "lower content_type = ''lens'' \<Longrightarrow>
     default_lens_permissions (priv_set_default_permissions self (Some provider) content_type) =
       Inr (provider ())"
  by (simp add: set_default_lens default_lens_permissions_def)

lemma default_datarole_unset:
  "(default_datarole_permissions self = Inl (UnpopulatedPropertyError ERROR_MSG)) =
     (priv_default_datarole_permissions self = None)"
  by (simp add: default_datarole_permissions_def split: option.split)

lemma default_datarole_populated:
  "lower content_type = ''datarole'' \<Longrightarrow>
     default_datarole_permissions (priv_set_default_permissions self (Some provider) content_type) =
       Inr (provider ())"
  by (simp add: set_default_datarole default_datarole_permissions_def)

lemma default_metric_unset:
  "(default_metric_permissions self = Inl (UnpopulatedPropertyError ERROR_MSG)) =
     (priv_default_metric_permissions self = None)"
  by (simp add: default_metric_permissions_def split: option.split)

lemma default_metric_populated:
  "lower content_type = ''metric'' \<Longrightarrow>
     default_metric_permissions (priv_set_default_permissions self (Some provider) content_type) =
       Inr (provider ())"
  by (simp add: set_default_metric default_metric_permissions_def)

lemma default_virtualconnection_unset:
  "(default_virtualconnection_permissions self = Inl (UnpopulatedPropertyError ERROR_MSG)) =
     (priv_default_virtualconnection_permissions self = None)"
  by (simp add: default_virtualconnection_permissions_def split: option.split)

lemma default_virtualconnection_populated:
  "lower content_type = ''virtualconnection'' \<Longrightarrow>
     default_virtualconnection_permissions (priv_set_default_permissions self (Some provider) content_type) =
       Inr (provider ())"
  by (simp add: set_default_virtualconnection default_virtualconnection_permissions_def)

lemma default_database_unset:
  "(default_database_permissions self = Inl (UnpopulatedPropertyError ERROR_MSG)) =
     (priv_default_database_permissions self = None)"
  by (simp add: default_database_permissions_def split: option.split)

lemma default_database_populated:
  "lower content_type = ''database'' \<Longrightarrow>
     default_database_permissions (priv_set_default_permissions self (Some provider) content_type) =
       Inr (provider ())"
  by (simp add: set_default_database default_database_permissions_def)

lemma default_table_unset:
  "(default_table_permissions self = Inl (UnpopulatedPropertyError ERROR_MSG)) =
     (priv_default_table_permissions self = None)"
  by (simp add: default_table_permissions_def split: option.split)

lemma default_table_populated:
  "lower content_type = ''table'' \<Longrightarrow>
     default_table_permissions (priv_set_default_permissions self (Some provider) content_type) =
       Inr (provider ())"
  by (simp add: set_default_table default_table_permissions_def)

text \<open>
  C5. Reading \<^verbatim>\<open>permissions\<close> or any of the nine \<^verbatim>\<open>default_*_permissions\<close>
  accessors raises \<^verbatim>\<open>UnpopulatedPropertyError\<close> exactly when the slot of the
  accessor is unset. After \<^verbatim>\<open>_set_permissions\<close>, or \<^verbatim>\<open>_set_default_permissions\<close>
  with a content type whose lower-case form names the slot, has injected a provider,
  reading the accessor calls the provider and returns its result.
\<close>

theorem deferred_permission_accessors:
  "(permissions self = Inl (UnpopulatedPropertyError ERROR_MSG)) = (priv_permissions self = None)
   \<and> (default_workbook_permissions self = Inl (UnpopulatedPropertyError ERROR_MSG)) =
       (priv_default_workbook_permissions self = None)
   \<and> (default_datasource_permissions self = Inl (UnpopulatedPropertyError ERROR_MSG)) =
       (priv_default_datasource_permissions self = None)
   \<and> (default_flow_permissions self = Inl (UnpopulatedPropertyError ERROR_MSG)) =
       (priv_default_flow_permissions self = None)
   \<and> (default_lens_permissions self = Inl (UnpopulatedPropertyError ERROR_MSG)) =
       (priv_default_lens_permissions self = None)
   \<and> (default_datarole_permissions self = Inl (UnpopulatedPropertyError ERROR_MSG)) =
       (priv_default_datarole_permissions self = None)
   \<and> (default_metric_permissions self = Inl (UnpopulatedPropertyError ERROR_MSG)) =
       (priv_default_metric_permissions self = None)
   \<and> (default_virtualconnection_permissions self = Inl (UnpopulatedPropertyError ERROR_MSG)) =
       (priv_default_virtualconnection_permissions self = None)
   \<and> (default_database_permissions self = Inl (UnpopulatedPropertyError ERROR_MSG)) =
       (priv_default_database_permissions self = None)
   \<and> (default_table_permissions self = Inl (UnpopulatedPropertyError ERROR_MSG)) =
       (priv_default_table_permissions self = None)
   \<and> permissions (priv_set_permissions self (Some provider)) = Inr (provider ())
   \<and> (lower content_type = ''workbook'' \<longrightarrow>
        default_workbook_permissions
          (priv_set_default_permissions self (Some provider) content_type) = Inr (provider ()))
   \<and> (lower content_type = ''datasource'' \<longrightarrow>
        default_datasource_permissions
          (priv_set_default_permissions self (Some provider) content_type) = Inr (provider ()))
   \<and> (lower content_type = ''flow'' \<longrightarrow>
        default_flow_permissions
          (priv_set_default_permissions self (Some provider) content_type) = Inr (provider ()))
   \<and> (lower content_type = ''lens'' \<longrightarrow>
        default_lens_permissions
          (priv_set_default_permissions self (Some provider) content_type) = Inr (provider ()))
   \<and> (lower content_type = ''datarole'' \<longrightarrow>
        default_datarole_permissions
          (priv_set_default_permissions self (Some provider) content_type) = Inr (provider ()))
   \<and> (lower content_type = ''metric'' \<longrightarrow>
        default_metric_permissions
          (priv_set_default_permissions self (Some provider) content_type) = Inr (provider ()))
   \<and> (lower content_type = ''virtualconnection'' \<longrightarrow>
        default_virtualconnection_permissions
          (priv_set_default_permissions self (Some provider) content_type) = Inr (provider ()))
   \<and> (lower content_type = ''database'' \<longrightarrow>
        default_database_permissions
          (priv_set_default_permissions self (Some provider) content_type) = Inr (provider ()))
   \<and> (lower content_type = ''table'' \<longrightarrow>
        default_table_permissions
          (priv_set_default_permissions self (Some provider) content_type) = Inr (provider ()))"
  by (intro conjI impI permissions_unset permissions_populated
        default_workbook_unset default_datasource_unset default_flow_unset default_lens_unset default_datarole_unset default_metric_unset default_virtualconnection_unset default_database_unset default_table_unset
        default_workbook_populated default_datasource_populated default_flow_populated default_lens_populated default_datarole_populated default_metric_populated default_virtualconnection_populated default_database_populated default_table_populated)

lemma lower_content_types:
  "lower ''dataRole'' = ''datarole''" "lower ''virtualConnection'' = ''virtualconnection''"
  "lower ''workbook'' = ''workbook''"
  by code_simp+

theorem deferred_permission_accessors_witness:
  "permissions (example_item :: nat project_item) = Inl (UnpopulatedPropertyError ERROR_MSG)
   \<and> default_workbook_permissions (example_item :: nat project_item)
       = Inl (UnpopulatedPropertyError ERROR_MSG)
   \<and> permissions (priv_set_permissions (example_item :: nat project_item) (Some (\<lambda>u. 42))) = Inr 42
   \<and> default_workbook_permissions
        (priv_set_default_permissions (example_item :: nat project_item) (Some (\<lambda>u. 42)) ''workbook'')
       = Inr 42
   \<and> default_datarole_permissions
        (priv_set_default_permissions (example_item :: nat project_item) (Some (\<lambda>u. 42)) ''dataRole'')
       = Inr 42
   \<and> default_virtualconnection_permissions
        (priv_set_default_permissions (example_item :: nat project_item) (Some (\<lambda>u. 42))
           ''virtualConnection'')
       = Inr 42"
  using deferred_permission_accessors
          [where self = "example_item :: nat project_item" and provider = "\<lambda>u. 42"
             and content_type = "''workbook''"]
        deferred_permission_accessors
          [where self = "example_item :: nat project_item" and provider = "\<lambda>u. 42"
             and content_type = "''dataRole''"]
        deferred_permission_accessors
          [where self = "example_item :: nat project_item" and provider = "\<lambda>u. 42"
             and content_type = "''virtualConnection''"]
  by (simp add: lower_content_types example_item_def bare_item_def)

end
